theory Spec2Isabelle
  imports Main
begin

section \<open>Land use agreement invoices: settlement and numbering\<close>

text \<open>
  The development embeds two methods of \<^verbatim>\<open>LandUseAgreementInvoice\<close>
  (\<^verbatim>\<open>leasing/models/land_use_agreement.py\<close>): \<^verbatim>\<open>update_amounts\<close>, which
  recomputes the billed, total and outstanding amounts and the state of an invoice from its
  rows, its payments and the invoices that credit it, and \<^verbatim>\<open>generate_number\<close>,
  which gives an invoice its number from the sequence \<^verbatim>\<open>invoice_numbers\<close>.
  Both work on an object held in memory and on the database behind the ORM; the model
  passes both explicitly: a method takes the object and the database and returns the
  object and the database as it leaves them. Neither method raises an exception of its
  own. What can fail inside them is the recomputation of a row amount, which is a result
  of the model, and the database itself, which the model takes to answer.
\<close>

subsection \<open>Data\<close>

text \<open>
  Every amount is a \<^verbatim>\<open>DecimalField\<close> with two decimal places. It is modelled by
  the integer number of hundredths, so \<open>100000\<close> stands for \<^verbatim>\<open>1000.00\<close> and
  \<^verbatim>\<open>Decimal(0)\<close> is \<open>0\<close>. Sums and differences of such values are exact in
  Python's \<^verbatim>\<open>Decimal\<close> and in the database alike. The bound of ten digits on a
  stored amount is the database's to enforce and is not modelled. A date is the number of
  its day.
\<close>

type_synonym decimal = int
type_synonym date = int

datatype InvoiceState = OPEN | PAID | REFUNDED

datatype InvoiceType = CHARGE | CREDIT_NOTE

text \<open>
  The three models derive from \<^verbatim>\<open>TimeStampedSafeDeleteModel\<close>, whose source is not
  at hand. What the class contributes is named by the comment in \<^verbatim>\<open>update_amounts\<close>:
  a row can be deleted while staying in its table, and the manager behind
  \<^verbatim>\<open>rows.all()\<close> leaves such rows out. Each record therefore carries a flag telling
  whether it has been deleted. Only the fields that the two methods read or write are kept.
\<close>

record LandUseAgreementInvoiceRow =
  row_invoice :: nat
  amount :: decimal
  compensation_amount :: decimal
  increase_percentage :: decimal
  plan_lawfulness_date :: "date option"
  sign_date :: "date option"
  row_deleted :: bool

record LandUseAgreementInvoicePayment =
  payment_invoice :: nat
  paid_amount :: decimal
  payment_deleted :: bool

record LandUseAgreementInvoice =
  pk :: nat
  billed_amount :: decimal
  credited_invoice :: "nat option"
  number :: "nat option"
  outstanding_amount :: decimal
  state :: InvoiceState
  total_amount :: decimal
  type :: InvoiceType
  deleted :: bool

text \<open>
  The database: one list per table and the counters of the sequences. A row or a payment
  is identified by its place in its table; an invoice by its primary key \<open>pk\<close>, to which
  \<open>row_invoice\<close>, \<open>payment_invoice\<close> and \<open>credited_invoice\<close> refer.
\<close>

record database =
  invoice_table :: "LandUseAgreementInvoice list"
  row_table :: "LandUseAgreementInvoiceRow list"
  payment_table :: "LandUseAgreementInvoicePayment list"
  sequence_table :: "string \<rightharpoonup> nat"

datatype error = AmountCalculationFailed

subsection \<open>The ORM operations used by the methods\<close>

text \<open>\<^verbatim>\<open>invoice.rows.all()\<close>: the rows of the invoice that are not deleted.\<close>

definition rows_all :: "nat \<Rightarrow> LandUseAgreementInvoiceRow list \<Rightarrow> LandUseAgreementInvoiceRow list" where
  "rows_all k rws = filter (\<lambda>r. row_invoice r = k \<and> \<not> row_deleted r) rws"

text \<open>\<^verbatim>\<open>invoice.payments\<close>: the payments of the invoice that are not deleted.\<close>

definition payments_all :: "nat \<Rightarrow> LandUseAgreementInvoicePayment list \<Rightarrow> LandUseAgreementInvoicePayment list" where
  "payments_all k pms = filter (\<lambda>p. payment_invoice p = k \<and> \<not> payment_deleted p) pms"

text \<open>
  \<^verbatim>\<open>invoice.credit_invoices.all()\<close>: the invoices, not deleted, whose
  \<^verbatim>\<open>credited_invoice\<close> is this invoice.
\<close>

definition credit_invoices_all :: "nat \<Rightarrow> LandUseAgreementInvoice list \<Rightarrow> LandUseAgreementInvoice list" where
  "credit_invoices_all k invs = filter (\<lambda>c. credited_invoice c = Some k \<and> \<not> deleted c) invs"

text \<open>
  \<^verbatim>\<open>aggregate(sum=Sum(...))["sum"]\<close> is \<^verbatim>\<open>None\<close> over no rows and the sum
  otherwise.
\<close>

definition aggregate_Sum :: "decimal list \<Rightarrow> decimal option" where
  "aggregate_Sum xs = (if xs = [] then None else Some (sum_list xs))"

text \<open>
  \<^verbatim>\<open>if not x: x = Decimal(0)\<close>. Both \<^verbatim>\<open>None\<close> and a zero are false in Python.
\<close>

definition or_Decimal_0 :: "decimal option \<Rightarrow> decimal" where
  "or_Decimal_0 x = (case x of None \<Rightarrow> 0 | Some s \<Rightarrow> if s = 0 then 0 else s)"

text \<open>\<^verbatim>\<open>a.compare(b)\<close> of two finite decimals is \<open>-1\<close>, \<open>0\<close> or \<open>1\<close>.\<close>

definition decimal_compare :: "decimal \<Rightarrow> decimal \<Rightarrow> decimal" where
  "decimal_compare a b = (if a < b then - 1 else if a = b then 0 else 1)"

text \<open>
  \<^verbatim>\<open>invoice.save()\<close> writes the object over the stored invoice of the same primary
  key, and inserts it when there is none.
\<close>

definition save :: "LandUseAgreementInvoice \<Rightarrow> LandUseAgreementInvoice list \<Rightarrow> LandUseAgreementInvoice list" where
  "save obj invs =
     (if pk obj \<in> set (map pk invs)
      then map (\<lambda>x. if pk x = pk obj then obj else x) invs
      else invs @ [obj])"

subsection \<open>\<^verbatim>\<open>LandUseAgreementInvoiceRow.update_amount\<close>\<close>

text \<open>
  The amount of a row is recomputed by \<^verbatim>\<open>calculate_increase_with_360_day_calendar\<close>
  of \<^verbatim>\<open>leasing.utils\<close> from the sign date, the plan lawfulness date, the increase
  percentage and the compensation amount. That function is not at hand; it is the
  parameter \<open>calc\<close> of the model, giving the amount as the table stores it, or
  \<open>None\<close> when it raises (both dates may be null).
\<close>

type_synonym calculation = "date option \<Rightarrow> date option \<Rightarrow> decimal \<Rightarrow> decimal \<Rightarrow> decimal option"

definition update_amount :: "calculation \<Rightarrow> LandUseAgreementInvoiceRow \<Rightarrow> LandUseAgreementInvoiceRow option" where
  "update_amount calc row =
     (case calc (sign_date row) (plan_lawfulness_date row) (increase_percentage row) (compensation_amount row) of
        None \<Rightarrow> None
      | Some a \<Rightarrow> Some (row\<lparr>amount := a\<rparr>))"

subsection \<open>\<^verbatim>\<open>LandUseAgreementInvoice.update_amounts\<close>\<close>

text \<open>
  \<^verbatim>\<open>for row in self.rows.all(): row.update_amount()\<close>. Every row of the invoice that
  is not deleted is recomputed and saved in its place; the other rows of the table stay
  as they are. The first failing row ends the method.
\<close>

fun update_row_amounts :: "calculation \<Rightarrow> nat \<Rightarrow> LandUseAgreementInvoiceRow list \<Rightarrow> error + LandUseAgreementInvoiceRow list" where
  "update_row_amounts calc k [] = Inr []"
| "update_row_amounts calc k (r # rs) =
     (if row_invoice r = k \<and> \<not> row_deleted r
      then (case update_amount calc r of
              None \<Rightarrow> Inl AmountCalculationFailed
            | Some r' \<Rightarrow>
                (case update_row_amounts calc k rs of
                   Inl e \<Rightarrow> Inl e
                 | Inr rs' \<Rightarrow> Inr (r' # rs')))
      else (case update_row_amounts calc k rs of
              Inl e \<Rightarrow> Inl e
            | Inr rs' \<Rightarrow> Inr (r # rs')))"

text \<open>
  The tally by hand of the credited amount:
  \<^verbatim>\<open>for credit_inv in self.credit_invoices.all(): for row in credit_inv.rows.all():
  total_credited_amount += row.amount\<close>.
\<close>

fun tally_rows :: "decimal \<Rightarrow> LandUseAgreementInvoiceRow list \<Rightarrow> decimal" where
  "tally_rows tally [] = tally"
| "tally_rows tally (row # rs) = tally_rows (tally + amount row) rs"

fun tally_credit_invoices :: "decimal \<Rightarrow> LandUseAgreementInvoice list \<Rightarrow> LandUseAgreementInvoiceRow list \<Rightarrow> decimal" where
  "tally_credit_invoices tally [] rws = tally"
| "tally_credit_invoices tally (credit_inv # cs) rws =
     tally_credit_invoices (tally_rows tally (rows_all (pk credit_inv) rws)) cs rws"

definition total_credited_amount :: "LandUseAgreementInvoice \<Rightarrow> database \<Rightarrow> decimal" where
  "total_credited_amount self db =
     tally_credit_invoices 0 (credit_invoices_all (pk self) (invoice_table db)) (row_table db)"

definition update_amounts :: "calculation \<Rightarrow> LandUseAgreementInvoice \<Rightarrow> database \<Rightarrow> error + (LandUseAgreementInvoice \<times> database)" where
  "update_amounts calc self db =
     (case update_row_amounts calc (pk self) (row_table db) of
        Inl e \<Rightarrow> Inl e
      | Inr rws \<Rightarrow>
         (let db1 = db\<lparr>row_table := rws\<rparr>;
              rows_sum = or_Decimal_0 (aggregate_Sum (map amount (rows_all (pk self) (row_table db1))));
              self1 = self\<lparr>billed_amount := rows_sum, total_amount := rows_sum\<rparr>;
              payments_total =
                or_Decimal_0 (aggregate_Sum (map paid_amount (payments_all (pk self1) (payment_table db1))));
              credited = total_credited_amount self1 db1;
              self2 = self1\<lparr>outstanding_amount :=
                        max 0 (billed_amount self1 - payments_total - credited)\<rparr>;
              self3 =
                (if credited \<noteq> 0 \<and> decimal_compare credited (billed_amount self2) \<noteq> - 1
                 then self2\<lparr>state := REFUNDED\<rparr>
                 else if type self2 = CHARGE \<and> outstanding_amount self2 = 0
                 then self2\<lparr>state := PAID\<rparr>
                 else self2)
          in Inr (self3, db1\<lparr>invoice_table := save self3 (invoice_table db1)\<rparr>)))"

subsection \<open>\<^verbatim>\<open>LandUseAgreementInvoice.generate_number\<close>\<close>

text \<open>
  Modelled from the spec: \<^verbatim>\<open>get_next_value\<close> of the package \<^verbatim>\<open>sequences\<close>, which
  is not part of the sources. By the specification of the sequence allocator, the initial
  value is used only when the sequence has never been initialised, and every later call
  gives the next integer. The counter holds the last value given out.
\<close>

definition get_next_value :: "(string \<rightharpoonup> nat) \<Rightarrow> string \<Rightarrow> nat \<Rightarrow> nat \<times> (string \<rightharpoonup> nat)" where
  "get_next_value seqs sequence_name initial_value =
     (case seqs sequence_name of
        None \<Rightarrow> (initial_value, seqs(sequence_name \<mapsto> initial_value))
      | Some last_value \<Rightarrow> (last_value + 1, seqs(sequence_name \<mapsto> last_value + 1)))"

text \<open>
  The block under \<^verbatim>\<open>transaction.atomic()\<close>: the next value of
  \<^verbatim>\<open>invoice_numbers\<close>, starting at 1000000, becomes the number of the invoice,
  and the invoice is saved. The result is the number, the object and the database.
\<close>

definition assign_next_number :: "LandUseAgreementInvoice \<Rightarrow> database \<Rightarrow> nat \<times> LandUseAgreementInvoice \<times> database" where
  "assign_next_number self db =
     (let (v, seqs) = get_next_value (sequence_table db) ''invoice_numbers'' 1000000;
          self1 = self\<lparr>number := Some v\<rparr>
      in (v, self1, db\<lparr>sequence_table := seqs, invoice_table := save self1 (invoice_table db)\<rparr>))"

text \<open>
  \<^verbatim>\<open>if self.number: return self.number\<close>. The test holds for a number that is
  neither \<^verbatim>\<open>None\<close> nor \<open>0\<close>; the field is a \<^verbatim>\<open>PositiveIntegerField\<close>, which
  admits \<open>0\<close>.
\<close>

definition generate_number :: "LandUseAgreementInvoice \<Rightarrow> database \<Rightarrow> nat \<times> LandUseAgreementInvoice \<times> database" where
  "generate_number self db =
     (case number self of
        None \<Rightarrow> assign_next_number self db
      | Some n \<Rightarrow> if n \<noteq> 0 then (n, self, db) else assign_next_number self db)"

subsection \<open>The quantities the properties speak of\<close>

text \<open>
  The total paid: the paid amounts of the payments of invoice \<open>k\<close>. The total credited:
  over the invoices that credit invoice \<open>k\<close>, the amounts of their rows. Both are
  taken as the managers give them, that is without what has been deleted.
\<close>

definition payments_total :: "nat \<Rightarrow> LandUseAgreementInvoicePayment list \<Rightarrow> decimal" where
  "payments_total k pms = sum_list (map paid_amount (payments_all k pms))"

definition credited_rows_amount :: "nat \<Rightarrow> LandUseAgreementInvoice list \<Rightarrow> LandUseAgreementInvoiceRow list \<Rightarrow> decimal" where
  "credited_rows_amount k invs rws =
     (\<Sum>c\<leftarrow>credit_invoices_all k invs. sum_list (map amount (rows_all (pk c) rws)))"

text \<open>
  The credited total as the specification words it: every invoice that refers to invoice
  \<open>k\<close> as its credited invoice counts with all of its rows, deleted ones too.
\<close>

definition credited_total_in_full :: "nat \<Rightarrow> LandUseAgreementInvoice list \<Rightarrow> LandUseAgreementInvoiceRow list \<Rightarrow> decimal" where
  "credited_total_in_full k invs rws =
     (\<Sum>c\<leftarrow>filter (\<lambda>c. credited_invoice c = Some k) invs.
        sum_list (map amount (filter (\<lambda>r. row_invoice r = pk c) rws)))"

subsection \<open>Example data\<close>

text \<open>
  A calculation without increase (the amount of a row is its compensation amount), and a
  few small databases on which the theorems below are tried.
\<close>

definition no_increase :: calculation where
  "no_increase signed lawful percentage compensation = Some compensation"

definition charge_invoice :: "nat \<Rightarrow> LandUseAgreementInvoice" where
  "charge_invoice k =
     \<lparr>pk = k, billed_amount = 0, credited_invoice = None, number = None,
      outstanding_amount = 0, state = OPEN, total_amount = 0, type = CHARGE, deleted = False\<rparr>"

definition credit_note :: "nat \<Rightarrow> nat \<Rightarrow> LandUseAgreementInvoice" where
  "credit_note k credited =
     \<lparr>pk = k, billed_amount = 0, credited_invoice = Some credited, number = None,
      outstanding_amount = 0, state = OPEN, total_amount = 0, type = CREDIT_NOTE, deleted = False\<rparr>"

definition invoice_row :: "nat \<Rightarrow> decimal \<Rightarrow> LandUseAgreementInvoiceRow" where
  "invoice_row k a =
     \<lparr>row_invoice = k, amount = a, compensation_amount = a, increase_percentage = 0,
      plan_lawfulness_date = None, sign_date = None, row_deleted = False\<rparr>"

definition payment :: "nat \<Rightarrow> decimal \<Rightarrow> LandUseAgreementInvoicePayment" where
  "payment k a = \<lparr>payment_invoice = k, paid_amount = a, payment_deleted = False\<rparr>"

text \<open>Rows of 1000.00 and one payment of 400.00.\<close>

definition db_part_paid :: database where
  "db_part_paid =
     \<lparr>invoice_table = [charge_invoice 1],
      row_table = [invoice_row 1 60000, invoice_row 1 40000],
      payment_table = [payment 1 40000],
      sequence_table = Map.empty\<rparr>"

text \<open>Rows of 800.00, payments of 800.00 and a credit note of 800.00.\<close>

definition db_paid_and_credited :: database where
  "db_paid_and_credited =
     \<lparr>invoice_table = [charge_invoice 1, credit_note 2 1],
      row_table = [invoice_row 1 80000, invoice_row 2 80000],
      payment_table = [payment 1 80000],
      sequence_table = Map.empty\<rparr>"

text \<open>Rows of 800.00 and a credit note whose only row, of 800.00, has been deleted.\<close>

definition db_deleted_credit_row :: database where
  "db_deleted_credit_row =
     \<lparr>invoice_table = [charge_invoice 1, credit_note 2 1],
      row_table = [invoice_row 1 80000, (invoice_row 2 80000)\<lparr>row_deleted := True\<rparr>],
      payment_table = [],
      sequence_table = Map.empty\<rparr>"

text \<open>An invoice without rows, payments or credit notes.\<close>

definition db_no_rows :: database where
  "db_no_rows =
     \<lparr>invoice_table = [charge_invoice 1], row_table = [], payment_table = [],
      sequence_table = Map.empty\<rparr>"

text \<open>Rows of 1000.00 and a payment of -500.00.\<close>

definition db_negative_payment :: database where
  "db_negative_payment =
     \<lparr>invoice_table = [charge_invoice 1],
      row_table = [invoice_row 1 100000],
      payment_table = [payment 1 (- 50000)],
      sequence_table = Map.empty\<rparr>"

text \<open>What \<^verbatim>\<open>update_amounts\<close> makes of the invoice in each of these databases.\<close>

definition settled_part_paid :: LandUseAgreementInvoice where
  "settled_part_paid =
     (charge_invoice 1)\<lparr>billed_amount := 100000, total_amount := 100000, outstanding_amount := 60000\<rparr>"

definition settled_paid_and_credited :: LandUseAgreementInvoice where
  "settled_paid_and_credited =
     (charge_invoice 1)\<lparr>billed_amount := 80000, total_amount := 80000, state := REFUNDED\<rparr>"

definition settled_deleted_credit_row :: LandUseAgreementInvoice where
  "settled_deleted_credit_row =
     (charge_invoice 1)\<lparr>billed_amount := 80000, total_amount := 80000, outstanding_amount := 80000\<rparr>"

definition settled_negative_payment :: LandUseAgreementInvoice where
  "settled_negative_payment =
     (charge_invoice 1)\<lparr>billed_amount := 100000, total_amount := 100000, outstanding_amount := 150000\<rparr>"

section \<open>Properties\<close>

subsection \<open>The loops as sums\<close>

lemma tally_rows_sum: "tally_rows t rs = t + sum_list (map amount rs)"
  by (induction rs arbitrary: t) auto

lemma tally_credit_invoices_sum:
  "tally_credit_invoices t cs rws =
     t + (\<Sum>c\<leftarrow>cs. sum_list (map amount (rows_all (pk c) rws)))"
  by (induction cs arbitrary: t) (auto simp: tally_rows_sum)

lemma total_credited_amount_sum:
  "total_credited_amount self db = credited_rows_amount (pk self) (invoice_table db) (row_table db)"
  by (simp add: total_credited_amount_def tally_credit_invoices_sum credited_rows_amount_def)

lemma or_Decimal_0_aggregate_Sum: "or_Decimal_0 (aggregate_Sum xs) = sum_list xs"
  by (simp add: or_Decimal_0_def aggregate_Sum_def)

lemma decimal_compare_not_less: "decimal_compare a b \<noteq> - 1 \<longleftrightarrow> b \<le> a"
  by (simp add: decimal_compare_def)

lemmas settle_simps = update_amounts_def Let_def or_Decimal_0_aggregate_Sum
  decimal_compare_not_less total_credited_amount_sum payments_total_def

subsection \<open>The result of \<^verbatim>\<open>update_amounts\<close> in closed form\<close>

text \<open>
  Once the rows have been recomputed, the method cannot fail: with \<open>b\<close> the sum of the
  rows, \<open>p\<close> the total paid and \<open>c\<close> the total credited, it returns the invoice with its
  four fields set and the database with the rows and the invoice written.
\<close>

lemma update_amounts_eq:
  assumes "update_row_amounts calc (pk self) (row_table db) = Inr rws"
    and "sum_list (map amount (rows_all (pk self) rws)) = b"
    and "payments_total (pk self) (payment_table db) = p"
    and "credited_rows_amount (pk self) (invoice_table db) rws = c"
    and "self' = self\<lparr>billed_amount := b, total_amount := b, outstanding_amount := max 0 (b - p - c),
            state := (if c \<noteq> 0 \<and> b \<le> c then REFUNDED
                      else if type self = CHARGE \<and> max 0 (b - p - c) = 0 then PAID
                      else state self)\<rparr>"
    and "db' = db\<lparr>row_table := rws, invoice_table := save self' (invoice_table db)\<rparr>"
  shows "update_amounts calc self db = Inr (self', db')"
  using assms by (simp add: settle_simps)

lemma update_amounts_Inr:
  assumes "update_amounts calc self db = Inr (self', db')"
  shows "update_row_amounts calc (pk self) (row_table db) = Inr (row_table db')"
    and "payment_table db' = payment_table db"
    and "sequence_table db' = sequence_table db"
    and "invoice_table db' = save self' (invoice_table db)"
  using assms by (auto simp: settle_simps split: sum.splits)

lemma update_amounts_Inr_iff:
  "update_amounts calc self db = Inr (self', db') \<longleftrightarrow>
     (\<exists>rws. update_row_amounts calc (pk self) (row_table db) = Inr rws \<and>
        self' = self\<lparr>billed_amount := sum_list (map amount (rows_all (pk self) rws)),
                     total_amount := sum_list (map amount (rows_all (pk self) rws)),
                     outstanding_amount :=
                       max 0 (sum_list (map amount (rows_all (pk self) rws))
                              - payments_total (pk self) (payment_table db)
                              - credited_rows_amount (pk self) (invoice_table db) rws),
                     state :=
                       (if credited_rows_amount (pk self) (invoice_table db) rws \<noteq> 0 \<and>
                           sum_list (map amount (rows_all (pk self) rws))
                             \<le> credited_rows_amount (pk self) (invoice_table db) rws
                        then REFUNDED
                        else if type self = CHARGE \<and>
                                max 0 (sum_list (map amount (rows_all (pk self) rws))
                                       - payments_total (pk self) (payment_table db)
                                       - credited_rows_amount (pk self) (invoice_table db) rws) = 0
                        then PAID
                        else state self)\<rparr> \<and>
        db' = db\<lparr>row_table := rws, invoice_table := save self' (invoice_table db)\<rparr>)"
proof (cases "update_row_amounts calc (pk self) (row_table db)")
  case (Inl e)
  then show ?thesis by (simp add: update_amounts_def)
next
  case (Inr rws)
  show ?thesis
    unfolding update_amounts_eq [OF Inr refl refl refl refl refl] Inr
    by auto
qed

lemma update_amounts_fields:
  assumes "update_amounts calc self db = Inr (self', db')"
  shows "billed_amount self' = sum_list (map amount (rows_all (pk self) (row_table db')))"
    and "total_amount self' = sum_list (map amount (rows_all (pk self) (row_table db')))"
    and "outstanding_amount self' =
           max 0 (billed_amount self' - payments_total (pk self) (payment_table db)
                  - credited_rows_amount (pk self) (invoice_table db) (row_table db'))"
    and "state self' =
           (if credited_rows_amount (pk self) (invoice_table db) (row_table db') \<noteq> 0 \<and>
               billed_amount self' \<le> credited_rows_amount (pk self) (invoice_table db) (row_table db')
            then REFUNDED
            else if type self = CHARGE \<and> outstanding_amount self' = 0 then PAID
            else state self)"
  using assms unfolding update_amounts_Inr_iff by auto

lemma update_amounts_frame:
  assumes "update_amounts calc self db = Inr (self', db')"
  shows "pk self' = pk self" and "credited_invoice self' = credited_invoice self"
    and "number self' = number self" and "type self' = type self" and "deleted self' = deleted self"
  using assms unfolding update_amounts_Inr_iff by auto

subsection \<open>Row amounts\<close>

lemma update_row_amounts_no_rows:
  "rows_all k rws = [] \<Longrightarrow> update_row_amounts calc k rws = Inr rws"
  by (induction rws) (auto simp: rows_all_def split: if_splits)




subsection \<open>Saving an invoice\<close>


text \<open>
  The total credited looks at the invoice table only through the key, the credited invoice
  and the deletion flag of each invoice.
\<close>

lemma credited_rows_amount_map:
  assumes "\<forall>x\<in>set invs. pk (f x) = pk x \<and> credited_invoice (f x) = credited_invoice x
                        \<and> deleted (f x) = deleted x"
  shows "credited_rows_amount k (map f invs) rws = credited_rows_amount k invs rws"
  using assms by (induction invs) (auto simp: credited_rows_amount_def credit_invoices_all_def)


subsection \<open>The examples, settled\<close>

lemmas example_defs = no_increase_def charge_invoice_def credit_note_def invoice_row_def payment_def
  rows_all_def payments_all_def credit_invoices_all_def save_def update_amount_def
  payments_total_def credited_rows_amount_def

lemma update_amounts_part_paid:
  "update_amounts no_increase (charge_invoice 1) db_part_paid =
     Inr (settled_part_paid, db_part_paid\<lparr>invoice_table := [settled_part_paid]\<rparr>)"
  by (rule update_amounts_eq [where rws = "row_table db_part_paid" and b = 100000 and p = 40000 and c = 0])
    (simp_all add: db_part_paid_def settled_part_paid_def example_defs)

lemma update_amounts_paid_and_credited:
  "update_amounts no_increase (charge_invoice 1) db_paid_and_credited =
     Inr (settled_paid_and_credited,
          db_paid_and_credited\<lparr>invoice_table := [settled_paid_and_credited, credit_note 2 1]\<rparr>)"
  by (rule update_amounts_eq [where rws = "row_table db_paid_and_credited" and b = 80000 and p = 80000 and c = 80000])
    (simp_all add: db_paid_and_credited_def settled_paid_and_credited_def example_defs)

lemma update_amounts_deleted_credit_row:
  "update_amounts no_increase (charge_invoice 1) db_deleted_credit_row =
     Inr (settled_deleted_credit_row,
          db_deleted_credit_row\<lparr>invoice_table := [settled_deleted_credit_row, credit_note 2 1]\<rparr>)"
  by (rule update_amounts_eq [where rws = "row_table db_deleted_credit_row" and b = 80000 and p = 0 and c = 0])
    (simp_all add: db_deleted_credit_row_def settled_deleted_credit_row_def example_defs)

lemma update_amounts_no_rows:
  "update_amounts no_increase (charge_invoice 1) db_no_rows =
     Inr ((charge_invoice 1)\<lparr>state := PAID\<rparr>,
          db_no_rows\<lparr>invoice_table := [(charge_invoice 1)\<lparr>state := PAID\<rparr>]\<rparr>)"
  by (rule update_amounts_eq [where rws = "[]" and b = 0 and p = 0 and c = 0])
    (simp_all add: db_no_rows_def example_defs)

lemma update_amounts_negative_payment:
  "update_amounts no_increase (charge_invoice 1) db_negative_payment =
     Inr (settled_negative_payment,
          db_negative_payment\<lparr>invoice_table := [settled_negative_payment]\<rparr>)"
  by (rule update_amounts_eq [where rws = "row_table db_negative_payment" and b = 100000 and p = "- 50000" and c = 0])
    (simp_all add: db_negative_payment_def settled_negative_payment_def example_defs)

subsection \<open>Amounts after \<^verbatim>\<open>update_amounts\<close>\<close>

text \<open>
  Claim C1. After \<^verbatim>\<open>update_amounts\<close> has completed, the outstanding amount of the
  invoice is the larger of zero and the billed amount less the total paid and the total
  credited; it is never negative. The total paid is the sum of the paid amounts of the
  payments of the invoice, the total credited the sum of the amounts of the rows of the
  invoices that have this invoice as their credited invoice. Payments and rows are those
  of the database the method leaves; the crediting invoices are those of the database it
  was called on, the only write to the invoice table being the method's own save.
\<close>

theorem outstanding_amount_settled:
  assumes "update_amounts calc self db = Inr (self', db')"
  shows "outstanding_amount self' =
           max 0 (billed_amount self' - payments_total (pk self') (payment_table db')
                  - credited_rows_amount (pk self') (invoice_table db) (row_table db'))
         \<and> 0 \<le> outstanding_amount self'"
  using update_amounts_fields(3) [OF assms] update_amounts_frame(1) [OF assms]
    update_amounts_Inr(2) [OF assms]
  by simp

theorem outstanding_amount_settled_witness:
  "update_amounts no_increase (charge_invoice 1) db_part_paid =
     Inr (settled_part_paid, db_part_paid\<lparr>invoice_table := [settled_part_paid]\<rparr>)
   \<and> outstanding_amount settled_part_paid = max 0 (100000 - 40000 - 0)
   \<and> 0 \<le> outstanding_amount settled_part_paid"
proof -
  have h: "update_amounts no_increase (charge_invoice 1) db_part_paid =
     Inr (settled_part_paid, db_part_paid\<lparr>invoice_table := [settled_part_paid]\<rparr>)"
    by (rule update_amounts_part_paid)
  show ?thesis
    using h outstanding_amount_settled [OF h]
    by (simp add: settled_part_paid_def)
qed

text \<open>
  Claim C5. After \<^verbatim>\<open>update_amounts\<close> has completed, the billed amount equals the total
  amount, and both are the sum of the amounts of the rows of the invoice, which is zero for
  an invoice without rows.
\<close>

theorem billed_amount_settled:
  assumes "update_amounts calc self db = Inr (self', db')"
  shows "billed_amount self' = total_amount self'
         \<and> billed_amount self' = sum_list (map amount (rows_all (pk self') (row_table db')))
         \<and> (rows_all (pk self') (row_table db') = [] \<longrightarrow> billed_amount self' = 0)"
  using update_amounts_fields(1,2) [OF assms] update_amounts_frame(1) [OF assms]
  by simp

theorem billed_amount_settled_witness:
  "update_amounts no_increase (charge_invoice 1) db_part_paid =
     Inr (settled_part_paid, db_part_paid\<lparr>invoice_table := [settled_part_paid]\<rparr>)
   \<and> billed_amount settled_part_paid = total_amount settled_part_paid
   \<and> billed_amount settled_part_paid = 60000 + 40000"
proof -
  have h: "update_amounts no_increase (charge_invoice 1) db_part_paid =
     Inr (settled_part_paid, db_part_paid\<lparr>invoice_table := [settled_part_paid]\<rparr>)"
    by (rule update_amounts_part_paid)
  show ?thesis
    using h billed_amount_settled [OF h]
    by (simp add: settled_part_paid_def)
qed

subsection \<open>The state after \<^verbatim>\<open>update_amounts\<close>\<close>

text \<open>
  Claim C2. \<^verbatim>\<open>update_amounts\<close> decides the state in a fixed order: when the total
  credited is not zero and is at least the billed amount, the state becomes
  \<open>REFUNDED\<close>; otherwise, when the invoice is a \<open>CHARGE\<close> and nothing is outstanding,
  it becomes \<open>PAID\<close>; otherwise it stays as it was. So an invoice that is fully paid and
  fully credited ends \<open>REFUNDED\<close>: the payments have no part in that decision.
\<close>

theorem state_settled:
  assumes "update_amounts calc self db = Inr (self', db')"
  shows "state self' =
           (if credited_rows_amount (pk self') (invoice_table db) (row_table db') \<noteq> 0 \<and>
               billed_amount self' \<le> credited_rows_amount (pk self') (invoice_table db) (row_table db')
            then REFUNDED
            else if type self' = CHARGE \<and> outstanding_amount self' = 0 then PAID
            else state self)
         \<and> (credited_rows_amount (pk self') (invoice_table db) (row_table db') \<noteq> 0 \<and>
             billed_amount self' \<le> credited_rows_amount (pk self') (invoice_table db) (row_table db') \<and>
             billed_amount self' \<le> payments_total (pk self') (payment_table db')
            \<longrightarrow> state self' = REFUNDED)"
  using update_amounts_fields(4) [OF assms] update_amounts_frame(1,4) [OF assms]
  by simp

theorem state_settled_witness:
  "update_amounts no_increase (charge_invoice 1) db_paid_and_credited =
     Inr (settled_paid_and_credited,
          db_paid_and_credited\<lparr>invoice_table := [settled_paid_and_credited, credit_note 2 1]\<rparr>)
   \<and> credited_rows_amount 1 (invoice_table db_paid_and_credited) (row_table db_paid_and_credited) = 80000
   \<and> payments_total 1 (payment_table db_paid_and_credited) = 80000
   \<and> billed_amount settled_paid_and_credited = 80000
   \<and> state settled_paid_and_credited = REFUNDED"
proof -
  have h: "update_amounts no_increase (charge_invoice 1) db_paid_and_credited =
     Inr (settled_paid_and_credited,
          db_paid_and_credited\<lparr>invoice_table := [settled_paid_and_credited, credit_note 2 1]\<rparr>)"
    by (rule update_amounts_paid_and_credited)
  show ?thesis
    using h state_settled [OF h]
    by (simp add: settled_paid_and_credited_def db_paid_and_credited_def example_defs)
qed

text \<open>
  Claim C7. \<^verbatim>\<open>update_amounts\<close> never sets the state to \<open>OPEN\<close>: the state it
  leaves is \<open>REFUNDED\<close>, \<open>PAID\<close> or the state the invoice had before the call.
\<close>

theorem state_never_reopened:
  assumes "update_amounts calc self db = Inr (self', db')"
  shows "(state self' = REFUNDED \<or> state self' = PAID \<or> state self' = state self)
         \<and> (state self' = OPEN \<longrightarrow> state self = OPEN)"
  using update_amounts_fields(4) [OF assms]
  by (auto split: if_splits)

theorem state_never_reopened_witness:
  "update_amounts no_increase (charge_invoice 1) db_negative_payment =
     Inr (settled_negative_payment,
          db_negative_payment\<lparr>invoice_table := [settled_negative_payment]\<rparr>)
   \<and> state settled_negative_payment = state (charge_invoice 1)
   \<and> state (charge_invoice 1) = OPEN"
proof -
  have h: "update_amounts no_increase (charge_invoice 1) db_negative_payment =
     Inr (settled_negative_payment,
          db_negative_payment\<lparr>invoice_table := [settled_negative_payment]\<rparr>)"
    by (rule update_amounts_negative_payment)
  show ?thesis
    using h state_never_reopened [OF h]
    by (simp add: settled_negative_payment_def charge_invoice_def)
qed

subsection \<open>Calling \<^verbatim>\<open>update_amounts\<close> twice\<close>



text \<open>
  The object has to be the stored invoice. An object made its own credited invoice in
  memory only is not yet among its credit invoices at the first call; the save of that
  call puts it there, and the second call credits the invoice with its own rows.
\<close>

lemma update_amounts_twice_self_credit_in_memory:
  "update_amounts no_increase ((charge_invoice 1)\<lparr>credited_invoice := Some 1\<rparr>) db_part_paid =
     Inr (settled_part_paid\<lparr>credited_invoice := Some 1\<rparr>,
          db_part_paid\<lparr>invoice_table := [settled_part_paid\<lparr>credited_invoice := Some 1\<rparr>]\<rparr>)
   \<and> update_amounts no_increase (settled_part_paid\<lparr>credited_invoice := Some 1\<rparr>)
        (db_part_paid\<lparr>invoice_table := [settled_part_paid\<lparr>credited_invoice := Some 1\<rparr>]\<rparr>) =
     Inr (settled_part_paid\<lparr>credited_invoice := Some 1, outstanding_amount := 0, state := REFUNDED\<rparr>,
          db_part_paid\<lparr>invoice_table :=
            [settled_part_paid\<lparr>credited_invoice := Some 1, outstanding_amount := 0, state := REFUNDED\<rparr>]\<rparr>)"
proof
  show "update_amounts no_increase ((charge_invoice 1)\<lparr>credited_invoice := Some 1\<rparr>) db_part_paid =
     Inr (settled_part_paid\<lparr>credited_invoice := Some 1\<rparr>,
          db_part_paid\<lparr>invoice_table := [settled_part_paid\<lparr>credited_invoice := Some 1\<rparr>]\<rparr>)"
    by (rule update_amounts_eq [where rws = "row_table db_part_paid" and b = 100000 and p = 40000 and c = 0])
      (simp_all add: db_part_paid_def settled_part_paid_def example_defs)
  show "update_amounts no_increase (settled_part_paid\<lparr>credited_invoice := Some 1\<rparr>)
        (db_part_paid\<lparr>invoice_table := [settled_part_paid\<lparr>credited_invoice := Some 1\<rparr>]\<rparr>) =
     Inr (settled_part_paid\<lparr>credited_invoice := Some 1, outstanding_amount := 0, state := REFUNDED\<rparr>,
          db_part_paid\<lparr>invoice_table :=
            [settled_part_paid\<lparr>credited_invoice := Some 1, outstanding_amount := 0, state := REFUNDED\<rparr>]\<rparr>)"
    by (rule update_amounts_eq [where rws = "row_table db_part_paid" and b = 100000 and p = 40000 and c = 100000])
      (simp_all add: db_part_paid_def settled_part_paid_def example_defs)
qed

subsection \<open>An invoice without rows\<close>

text \<open>
  Claim C3 says that an invoice without rows, payments and credit invoices gets a billed
  and an outstanding amount of zero and keeps its state, whatever its type. The amounts
  are as claimed, the state is not: for a \<open>CHARGE\<close> nothing is outstanding, so the
  second test of the method holds and an open invoice becomes \<open>PAID\<close>.
\<close>

theorem no_rows_charge_invoice_paid:
  "rows_all 1 (row_table db_no_rows) = []
   \<and> payments_all 1 (payment_table db_no_rows) = []
   \<and> credit_invoices_all 1 (invoice_table db_no_rows) = []
   \<and> state (charge_invoice 1) = OPEN
   \<and> update_amounts no_increase (charge_invoice 1) db_no_rows =
       Inr ((charge_invoice 1)\<lparr>state := PAID\<rparr>,
            db_no_rows\<lparr>invoice_table := [(charge_invoice 1)\<lparr>state := PAID\<rparr>]\<rparr>)"
  using update_amounts_no_rows
  by (simp add: db_no_rows_def example_defs)

text \<open>
  Claim C3, amended. For an invoice without rows, payments and credit invoices
  \<^verbatim>\<open>update_amounts\<close> completes and sets the billed, the total and the outstanding amount
  to zero. The state becomes \<open>PAID\<close> when the type is \<open>CHARGE\<close> and is left unchanged
  otherwise.
\<close>

theorem no_rows_settled:
  assumes "rows_all (pk self) (row_table db) = []"
    and "payments_all (pk self) (payment_table db) = []"
    and "credit_invoices_all (pk self) (invoice_table db) = []"
  shows "(let settled = self\<lparr>billed_amount := 0, total_amount := 0, outstanding_amount := 0,
                              state := (if type self = CHARGE then PAID else state self)\<rparr>
          in update_amounts calc self db =
               Inr (settled, db\<lparr>invoice_table := save settled (invoice_table db)\<rparr>))"
  unfolding Let_def
  by (rule update_amounts_eq [where rws = "row_table db" and b = 0 and p = 0 and c = 0])
    (use assms in \<open>simp_all add: update_row_amounts_no_rows payments_total_def credited_rows_amount_def\<close>)

theorem no_rows_settled_witness:
  "rows_all (pk (credit_note 2 1)) (row_table db_no_rows) = []
   \<and> payments_all (pk (credit_note 2 1)) (payment_table db_no_rows) = []
   \<and> credit_invoices_all (pk (credit_note 2 1)) (invoice_table db_no_rows) = []
   \<and> update_amounts no_increase (credit_note 2 1) db_no_rows =
       Inr (credit_note 2 1, db_no_rows\<lparr>invoice_table := [charge_invoice 1, credit_note 2 1]\<rparr>)"
proof -
  have r: "rows_all (pk (credit_note 2 1)) (row_table db_no_rows) = []"
    by (simp add: db_no_rows_def rows_all_def)
  have p: "payments_all (pk (credit_note 2 1)) (payment_table db_no_rows) = []"
    by (simp add: db_no_rows_def payments_all_def)
  have c: "credit_invoices_all (pk (credit_note 2 1)) (invoice_table db_no_rows) = []"
    by (simp add: db_no_rows_def credit_invoices_all_def charge_invoice_def credit_note_def)
  show ?thesis
    using r p c no_rows_settled [OF r p c, of no_increase]
    by (simp add: db_no_rows_def credit_note_def charge_invoice_def save_def Let_def)
qed

subsection \<open>The total credited\<close>

text \<open>
  Claim C4 says that the total credited sums, over every invoice that has this invoice as
  its credited invoice, all rows of that invoice, deleted rows included. It does not: the
  tally goes through the managers, as the comment in the method says it must. With a
  credit note whose only row has been deleted the tally is zero where the sum in full is
  800.00, and the credited invoice stays open with 800.00 outstanding.
\<close>

theorem deleted_credit_row_not_tallied:
  "total_credited_amount (charge_invoice 1) db_deleted_credit_row = 0
   \<and> credited_total_in_full (pk (charge_invoice 1)) (invoice_table db_deleted_credit_row)
       (row_table db_deleted_credit_row) = 80000
   \<and> update_amounts no_increase (charge_invoice 1) db_deleted_credit_row =
       Inr (settled_deleted_credit_row,
            db_deleted_credit_row\<lparr>invoice_table := [settled_deleted_credit_row, credit_note 2 1]\<rparr>)
   \<and> outstanding_amount settled_deleted_credit_row = 80000
   \<and> state settled_deleted_credit_row = OPEN"
  using update_amounts_deleted_credit_row
  by (simp add: total_credited_amount_sum credited_total_in_full_def db_deleted_credit_row_def
      settled_deleted_credit_row_def example_defs)

text \<open>
  Claim C4, amended. The total credited is the sum, over the invoices that have this
  invoice as their credited invoice and are not deleted, of the amounts of their rows that
  are not deleted. The state of a credit note has no part in it: the total is the same
  whatever states the invoices of the database are given.
\<close>

theorem total_credited_amount_without_deleted:
  "total_credited_amount self db =
     (\<Sum>c\<leftarrow>filter (\<lambda>c. credited_invoice c = Some (pk self) \<and> \<not> deleted c) (invoice_table db).
        \<Sum>r\<leftarrow>filter (\<lambda>r. row_invoice r = pk c \<and> \<not> row_deleted r) (row_table db). amount r)
   \<and> total_credited_amount self (db\<lparr>invoice_table := map (\<lambda>c. c\<lparr>state := s c\<rparr>) (invoice_table db)\<rparr>)
       = total_credited_amount self db"
proof
  show "total_credited_amount self db =
     (\<Sum>c\<leftarrow>filter (\<lambda>c. credited_invoice c = Some (pk self) \<and> \<not> deleted c) (invoice_table db).
        \<Sum>r\<leftarrow>filter (\<lambda>r. row_invoice r = pk c \<and> \<not> row_deleted r) (row_table db). amount r)"
    by (simp add: total_credited_amount_sum credited_rows_amount_def credit_invoices_all_def
        rows_all_def)
  have "credited_rows_amount (pk self) (map (\<lambda>c. c\<lparr>state := s c\<rparr>) (invoice_table db)) (row_table db)
      = credited_rows_amount (pk self) (invoice_table db) (row_table db)"
    by (rule credited_rows_amount_map) simp
  then show "total_credited_amount self (db\<lparr>invoice_table := map (\<lambda>c. c\<lparr>state := s c\<rparr>) (invoice_table db)\<rparr>)
       = total_credited_amount self db"
    by (simp add: total_credited_amount_sum)
qed

subsection \<open>Validation\<close>





subsection \<open>Numbering\<close>

lemma get_next_value_invoice_numbers:
  "fst (get_next_value seqs ''invoice_numbers'' 1000000) \<noteq> 0"
  by (simp add: get_next_value_def split: option.splits)

lemma generate_number_has_number:
  "number self = Some n \<Longrightarrow> n \<noteq> 0 \<Longrightarrow> generate_number self db = (n, self, db)"
  by (simp add: generate_number_def)

lemma assign_next_number_result:
  assumes "assign_next_number self db = (n1, self1, db1)"
  shows "number self1 = Some n1 \<and> n1 \<noteq> 0"
proof -
  obtain v seqs where g: "get_next_value (sequence_table db) ''invoice_numbers'' 1000000 = (v, seqs)"
    by (cases "get_next_value (sequence_table db) ''invoice_numbers'' 1000000")
  with get_next_value_invoice_numbers [of "sequence_table db"] have "v \<noteq> 0" by simp
  with assms g show ?thesis
    by (auto simp: assign_next_number_def Let_def)
qed

lemma generate_number_result:
  assumes "generate_number self db = (n1, self1, db1)"
  shows "number self1 = Some n1 \<and> n1 \<noteq> 0"
proof (cases "number self")
  case None
  with assms show ?thesis
    by (simp add: generate_number_def assign_next_number_result)
next
  case (Some n)
  show ?thesis
  proof (cases "n = 0")
    case True
    with Some assms show ?thesis
      by (simp add: generate_number_def assign_next_number_result)
  next
    case False
    with Some assms show ?thesis
      by (simp add: generate_number_def)
  qed
qed

lemma generate_number_sequence_table:
  "sequence_table (snd (snd (generate_number self db))) = sequence_table db \<or>
   sequence_table (snd (snd (generate_number self db)))
     = snd (get_next_value (sequence_table db) ''invoice_numbers'' 1000000)"
  by (auto simp: generate_number_def assign_next_number_def Let_def split: option.splits prod.splits)

lemma generate_number_first:
  "generate_number (charge_invoice 1) db_no_rows =
     (1000000, (charge_invoice 1)\<lparr>number := Some 1000000\<rparr>,
      db_no_rows\<lparr>sequence_table := [''invoice_numbers'' \<mapsto> 1000000],
                  invoice_table := [(charge_invoice 1)\<lparr>number := Some 1000000\<rparr>]\<rparr>)"
  by (simp add: generate_number_def assign_next_number_def get_next_value_def db_no_rows_def
      charge_invoice_def save_def Let_def)

text \<open>
  Claim C10 says that an invoice that has a number gets that number back from
  \<^verbatim>\<open>generate_number\<close> without a call of the allocator. For the number \<open>0\<close>, which the
  field admits, the test \<^verbatim>\<open>if self.number\<close> fails: the invoice is given the next
  value of the sequence in place of its number.
\<close>

theorem number_zero_replaced:
  "number ((charge_invoice 1)\<lparr>number := Some 0\<rparr>) = Some 0
   \<and> generate_number ((charge_invoice 1)\<lparr>number := Some 0\<rparr>) db_no_rows =
       (1000000, (charge_invoice 1)\<lparr>number := Some 1000000\<rparr>,
        db_no_rows\<lparr>sequence_table := [''invoice_numbers'' \<mapsto> 1000000],
                    invoice_table := [(charge_invoice 1)\<lparr>number := Some 1000000\<rparr>]\<rparr>)"
  by (simp add: generate_number_def assign_next_number_def get_next_value_def db_no_rows_def
      charge_invoice_def save_def Let_def)

text \<open>
  Claim C10, amended. An invoice that has a number other than zero gets that number back
  from \<^verbatim>\<open>generate_number\<close>, with the object and the database, the sequence among it,
  untouched. For every invoice a second call right after the first returns the same number
  and changes nothing, and the first call has either left the sequences as they were or
  taken one value of \<^verbatim>\<open>invoice_numbers\<close>: two calls take at most one value.
\<close>

theorem generate_number_idempotent:
  "(number self = Some n \<and> n \<noteq> 0 \<longrightarrow> generate_number self db = (n, self, db))
   \<and> (generate_number self db = (n1, self1, db1) \<longrightarrow>
        generate_number self1 db1 = (n1, self1, db1)
        \<and> (sequence_table db1 = sequence_table db
           \<or> sequence_table db1 = snd (get_next_value (sequence_table db) ''invoice_numbers'' 1000000)))"
proof (intro conjI impI)
  assume "number self = Some n \<and> n \<noteq> 0"
  then show "generate_number self db = (n, self, db)"
    by (simp add: generate_number_has_number)
next
  assume g: "generate_number self db = (n1, self1, db1)"
  from generate_number_result [OF g] show "generate_number self1 db1 = (n1, self1, db1)"
    by (simp add: generate_number_has_number)
  from generate_number_sequence_table [of self db] g
  show "sequence_table db1 = sequence_table db
           \<or> sequence_table db1 = snd (get_next_value (sequence_table db) ''invoice_numbers'' 1000000)"
    by simp
qed

theorem generate_number_idempotent_witness:
  "number ((charge_invoice 1)\<lparr>number := Some 1000007\<rparr>) = Some 1000007 \<and> (1000007::nat) \<noteq> 0
   \<and> generate_number ((charge_invoice 1)\<lparr>number := Some 1000007\<rparr>) db_no_rows =
       (1000007, (charge_invoice 1)\<lparr>number := Some 1000007\<rparr>, db_no_rows)
   \<and> generate_number (charge_invoice 1) db_no_rows =
       (1000000, (charge_invoice 1)\<lparr>number := Some 1000000\<rparr>,
        db_no_rows\<lparr>sequence_table := [''invoice_numbers'' \<mapsto> 1000000],
                    invoice_table := [(charge_invoice 1)\<lparr>number := Some 1000000\<rparr>]\<rparr>)
   \<and> generate_number ((charge_invoice 1)\<lparr>number := Some 1000000\<rparr>)
        (db_no_rows\<lparr>sequence_table := [''invoice_numbers'' \<mapsto> 1000000],
                    invoice_table := [(charge_invoice 1)\<lparr>number := Some 1000000\<rparr>]\<rparr>) =
       (1000000, (charge_invoice 1)\<lparr>number := Some 1000000\<rparr>,
        db_no_rows\<lparr>sequence_table := [''invoice_numbers'' \<mapsto> 1000000],
                    invoice_table := [(charge_invoice 1)\<lparr>number := Some 1000000\<rparr>]\<rparr>)"
proof -
  have has: "number ((charge_invoice 1)\<lparr>number := Some 1000007\<rparr>) = Some 1000007 \<and> (1000007::nat) \<noteq> 0"
    by simp
  show ?thesis
    using has generate_number_first
      generate_number_idempotent [of "(charge_invoice 1)\<lparr>number := Some 1000007\<rparr>" 1000007 db_no_rows
        1000007 "(charge_invoice 1)\<lparr>number := Some 1000007\<rparr>" db_no_rows]
      generate_number_idempotent [of "charge_invoice 1" 0 db_no_rows
        1000000 "(charge_invoice 1)\<lparr>number := Some 1000000\<rparr>"
        "db_no_rows\<lparr>sequence_table := [''invoice_numbers'' \<mapsto> 1000000],
                    invoice_table := [(charge_invoice 1)\<lparr>number := Some 1000000\<rparr>]\<rparr>"]
    by simp
qed

end
